theory Spec2Isabelle
  imports Complex_Main
begin

section \<open>The datastore library as dsx.go uses it\<close>

text \<open>
  dsx.go wraps the Google Cloud Datastore client library. The library is not part of the
  repository, so its values are modelled by what the wrapper hands to it and reads from
  it, and its functions are parameters of the model (the record \<open>Client\<close> below).
\<close>

text \<open>A \<^verbatim>\<open>*datastore.Key\<close>: kind, string name and parent (a pointer, so optional).\<close>

datatype Key = Key (keyKind: string) (keyName: string) (keyParent: "Key option")

definition NameKey :: "string \<Rightarrow> string \<Rightarrow> Key option \<Rightarrow> Key" where
  "NameKey kind name parent = Key kind name parent"

text \<open>
  A value of Go's \<^verbatim>\<open>interface{}\<close> as a caller passes it to \<^verbatim>\<open>WithFilter\<close>. The type
  assertion \<^verbatim>\<open>value.(string)\<close> succeeds on \<open>GoString\<close> only.
\<close>

datatype go_value =
    GoNil
  | GoString string
  | GoInt int
  | GoBool bool
  | GoStrings "string list"
  | GoKey Key

text \<open>A decoded \<^verbatim>\<open>datastore.Cursor\<close>: an opaque byte string (a \<open>char\<close> is a byte).\<close>

datatype Cursor = CursorBytes string

text \<open>
  A \<^verbatim>\<open>*datastore.Query\<close>, modelled by the settings the builder has put on it. Every
  method of the library returns a derived query; the library validates the settings
  only when the query is run, which belongs to the client.
\<close>

record dsQuery =
  qKind :: string
  qFilters :: "(string \<times> string \<times> go_value) list"
  qOrders :: "string list"
  qLimit :: "int option"
  qOffset :: "int option"
  qStart :: "Cursor option"
  qAncestor :: "Key option"
  qKeysOnly :: bool
  qDistinct :: bool

definition NewQuery :: "string \<Rightarrow> dsQuery" where
  "NewQuery kind = \<lparr>qKind = kind, qFilters = [], qOrders = [], qLimit = None,
     qOffset = None, qStart = None, qAncestor = None, qKeysOnly = False,
     qDistinct = False\<rparr>"

definition Distinct :: "dsQuery \<Rightarrow> dsQuery" where
  "Distinct q = q\<lparr>qDistinct := True\<rparr>"

definition Limit :: "int \<Rightarrow> dsQuery \<Rightarrow> dsQuery" where
  "Limit n q = q\<lparr>qLimit := Some n\<rparr>"

definition Offset :: "int \<Rightarrow> dsQuery \<Rightarrow> dsQuery" where
  "Offset n q = q\<lparr>qOffset := Some n\<rparr>"

definition Order :: "string \<Rightarrow> dsQuery \<Rightarrow> dsQuery" where
  "Order fieldName q = q\<lparr>qOrders := qOrders q @ [fieldName]\<rparr>"

definition Start :: "Cursor \<Rightarrow> dsQuery \<Rightarrow> dsQuery" where
  "Start c q = q\<lparr>qStart := Some c\<rparr>"

definition FilterField :: "string \<Rightarrow> string \<Rightarrow> go_value \<Rightarrow> dsQuery \<Rightarrow> dsQuery" where
  "FilterField fieldName operator v q = q\<lparr>qFilters := qFilters q @ [(fieldName, operator, v)]\<rparr>"

definition Ancestor :: "Key \<Rightarrow> dsQuery \<Rightarrow> dsQuery" where
  "Ancestor k q = q\<lparr>qAncestor := Some k\<rparr>"

definition KeysOnly_q :: "dsQuery \<Rightarrow> dsQuery" where
  "KeysOnly_q q = q\<lparr>qKeysOnly := True\<rparr>"

text \<open>\<^verbatim>\<open>q.NewAggregationQuery().WithCount(alias)\<close>.\<close>

record AggregationQuery =
  aggQuery :: dsQuery
  aggCounts :: "string list"

definition NewAggregationQuery :: "dsQuery \<Rightarrow> AggregationQuery" where
  "NewAggregationQuery q = \<lparr>aggQuery = q, aggCounts = []\<rparr>"

definition WithCount :: "string \<Rightarrow> AggregationQuery \<Rightarrow> AggregationQuery" where
  "WithCount alias a = a\<lparr>aggCounts := aggCounts a @ [alias]\<rparr>"

text \<open>
  An entry of \<^verbatim>\<open>datastore.AggregationResult\<close> (a \<^verbatim>\<open>map[string]interface{}\<close>): either a
  \<^verbatim>\<open>*datastorepb.Value\<close> (a pointer to a protobuf value, possibly nil) or a value of
  another Go type, kept by its type name. \<^verbatim>\<open>GetIntegerValue\<close> is the protobuf getter:
  the integer when the value holds one, 0 otherwise (also on a nil pointer).
\<close>

datatype pb_Value =
    NullValue
  | BooleanValue bool
  | IntegerValue int
  | StringValue string
  | KeyValue Key

datatype agg_value = PbValue "pb_Value option" | OtherGoType string

fun GetIntegerValue :: "pb_Value option \<Rightarrow> int" where
  "GetIntegerValue (Some (IntegerValue n)) = n"
| "GetIntegerValue _ = 0"

text \<open>
  Errors. A \<open>client_error\<close> is an error value that the library returns;
  \<open>IteratorDone\<close> is the sentinel \<^verbatim>\<open>iterator.Done\<close>, and \<open>errors_Is_Done\<close> is
  \<^verbatim>\<open>errors.Is(err, iterator.Done)\<close>, which also looks through wrapping. An \<open>error\<close> is
  what an operation of dsx.go returns: an error the package creates itself with
  \<^verbatim>\<open>errors.New\<close> or \<^verbatim>\<open>fmt.Errorf\<close> (format string and the \<^verbatim>\<open>%T\<close> argument), or a client
  error handed on unchanged. In Go the three are distinct values; the constructors keep
  them apart.
\<close>

datatype client_error =
    IteratorDone
  | Failure string
  | Wrapped string client_error

fun errors_Is_Done :: "client_error \<Rightarrow> bool" where
  "errors_Is_Done IteratorDone = True"
| "errors_Is_Done (Failure m) = False"
| "errors_Is_Done (Wrapped m e) = errors_Is_Done e"

datatype error =
    errors_New string
  | fmt_Errorf string string
  | FromClient client_error

datatype ClientOption = WithCredentialsJSON string

text \<open>
  The client. \<open>'x\<close> is \<^verbatim>\<open>context.Context\<close>, \<open>'w\<close> the state of the backend (the stored
  entities and whatever else decides how a call answers), \<open>'i\<close> a \<^verbatim>\<open>*datastore.Iterator\<close>
  (a handle: the position of the iteration is part of \<open>'w\<close>) and \<open>'a\<close> the entity type
  \<^verbatim>\<open>T\<close>. A Go result \<^verbatim>\<open>(v, err)\<close> is a pair whose second component is \<open>None\<close> for a nil
  error. \<open>GetAll\<close> gives the keys it returns and the entities it appends to \<^verbatim>\<open>dst\<close>;
  \<open>Iterator_Next\<close> gives the error or the entity it loads into its argument.
  \<open>DecodeCursor\<close> and \<open>Cursor_String\<close> are the package's cursor codec.
\<close>

record ('x, 'w, 'i, 'a) Client =
  GetAll :: "'x \<Rightarrow> dsQuery \<Rightarrow> 'w \<Rightarrow> (Key list \<times> 'a list \<times> client_error option) \<times> 'w"
  Run :: "'x \<Rightarrow> dsQuery \<Rightarrow> 'w \<Rightarrow> 'i \<times> 'w"
  Iterator_Next :: "'i \<Rightarrow> 'w \<Rightarrow> (client_error + 'a) \<times> 'w"
  Iterator_Cursor :: "'i \<Rightarrow> 'w \<Rightarrow> (Cursor \<times> client_error option) \<times> 'w"
  RunAggregationQuery :: "'x \<Rightarrow> AggregationQuery \<Rightarrow> 'w
     \<Rightarrow> ((string \<rightharpoonup> agg_value) \<times> client_error option) \<times> 'w"
  DeleteMulti :: "'x \<Rightarrow> Key list \<Rightarrow> 'w \<Rightarrow> client_error option \<times> 'w"
  DecodeCursor :: "string \<Rightarrow> Cursor \<times> client_error option"
  Cursor_String :: "Cursor \<Rightarrow> string"

section \<open>What a run does besides returning\<close>

text \<open>
  Every operation that reaches the backend takes a \<open>session\<close> and returns the session
  after it: the backend's state, the client calls issued so far (oldest first) and the
  lines written with \<^verbatim>\<open>log.Println\<close>.
\<close>

datatype call =
    Call_GetAll dsQuery
  | Call_Run dsQuery
  | Call_Next
  | Call_Cursor
  | Call_RunAggregationQuery AggregationQuery
  | Call_DeleteMulti "Key list"
  | Call_GetMulti "Key list"

datatype log_arg = S string | E client_error

record 'w session =
  backend :: 'w
  calls :: "call list"
  logs :: "log_arg list list"

definition Println :: "log_arg list \<Rightarrow> 'w session \<Rightarrow> 'w session" where
  "Println args s = s\<lparr>logs := logs s @ [args]\<rparr>"

definition issue :: "call \<Rightarrow> ('w \<Rightarrow> 'r \<times> 'w) \<Rightarrow> 'w session \<Rightarrow> 'r \<times> 'w session" where
  "issue cl f s =
     (let r = f (backend s) in (fst r, s\<lparr>backend := snd r, calls := calls s @ [cl]\<rparr>))"

section \<open>dsx.go\<close>

text \<open>
  \<^verbatim>\<open>DB\<close>: the client is a pointer and may be nil. \<^verbatim>\<open>QueryBuilder[T]\<close>: the field
  \<^verbatim>\<open>context\<close> is named \<open>ctx\<close> here. \<^verbatim>\<open>FilterOperator\<close> is a named string type.
\<close>

record 'c DB =
  client :: "'c option"
  projectId :: string
  databaseId :: string

record ('x, 'c) QueryBuilder =
  ctx :: 'x
  db :: "'c DB option"
  query :: dsQuery
  kind :: string
  limit :: int
  usingOffset :: bool
  usingCursor :: bool

type_synonym FilterOperator = string

definition OpEqual :: FilterOperator where "OpEqual = ''=''"
definition OpGreaterEqual :: FilterOperator where "OpGreaterEqual = ''>=''"
definition OpGreater :: FilterOperator where "OpGreater = ''>''"
definition OpLessEqual :: FilterOperator where "OpLessEqual = ''<=''"
definition OpLess :: FilterOperator where "OpLess = ''<''"
definition OpIn :: FilterOperator where "OpIn = ''in''"
definition OpNotIn :: FilterOperator where "OpNotIn = ''not in''"

definition FieldKey :: string where "FieldKey = ''__key__''"

text \<open>
  \<^verbatim>\<open>Connect\<close>. \<open>NewClientWithDatabase\<close> is the library's constructor, a parameter. The
  result \<^verbatim>\<open>*DB\<close> is a pointer, so it is optional in the model.
\<close>

definition Connect ::
  "('x \<Rightarrow> string \<Rightarrow> string \<Rightarrow> ClientOption list \<Rightarrow> 'c option \<times> client_error option)
   \<Rightarrow> 'x \<Rightarrow> string \<Rightarrow> string \<Rightarrow> string \<Rightarrow> 'c DB option \<times> client_error option" where
  "Connect NewClientWithDatabase cx projectId' databaseId' credentialsJSON =
     (let r = (if credentialsJSON \<noteq> []
               then NewClientWithDatabase cx projectId' databaseId'
                      [WithCredentialsJSON credentialsJSON]
               else NewClientWithDatabase cx projectId' databaseId' [])
      in (Some \<lparr>client = fst r, projectId = projectId', databaseId = databaseId'\<rparr>, snd r))"

definition Query :: "'c DB option \<Rightarrow> 'x \<Rightarrow> string \<Rightarrow> ('x, 'c) QueryBuilder" where
  "Query db' cx kind' = \<lparr>ctx = cx, db = db', query = NewQuery kind', kind = kind',
     limit = 0, usingOffset = False, usingCursor = False\<rparr>"

definition WithDistinct :: "('x, 'c) QueryBuilder \<Rightarrow> ('x, 'c) QueryBuilder" where
  "WithDistinct qb = qb\<lparr>query := Distinct (query qb)\<rparr>"

definition WithLimit :: "int \<Rightarrow> ('x, 'c) QueryBuilder \<Rightarrow> ('x, 'c) QueryBuilder" where
  "WithLimit limit' qb =
     (if limit' > 0 then qb\<lparr>query := Limit limit' (query qb), limit := limit'\<rparr> else qb)"

definition WithOffset :: "int \<Rightarrow> ('x, 'c) QueryBuilder \<Rightarrow> ('x, 'c) QueryBuilder" where
  "WithOffset offset qb =
     (if offset > 0 then qb\<lparr>query := Offset offset (query qb), usingOffset := True\<rparr> else qb)"

definition WithOrder :: "string \<Rightarrow> ('x, 'c) QueryBuilder \<Rightarrow> ('x, 'c) QueryBuilder" where
  "WithOrder field qb = qb\<lparr>query := Order field (query qb)\<rparr>"

definition WithOrderDesc :: "string \<Rightarrow> ('x, 'c) QueryBuilder \<Rightarrow> ('x, 'c) QueryBuilder" where
  "WithOrderDesc field qb = qb\<lparr>query := Order (''-'' @ field) (query qb)\<rparr>"

definition WithCursor ::
  "('x, 'w, 'i, 'a) Client \<Rightarrow> string \<Rightarrow> ('x, 'c) QueryBuilder \<Rightarrow> ('x, 'c) QueryBuilder" where
  "WithCursor c cursor qb =
     (if cursor \<noteq> [] then
        (case DecodeCursor c cursor of
           (cur, None) \<Rightarrow> qb\<lparr>query := Start cur (query qb), usingCursor := True\<rparr>
         | (cur, Some err) \<Rightarrow> qb)
      else qb)"

definition WithFilter ::
  "string \<Rightarrow> FilterOperator \<Rightarrow> go_value \<Rightarrow> ('x, 'c) QueryBuilder \<Rightarrow> ('x, 'c) QueryBuilder" where
  "WithFilter key operator v qb =
     (if key = FieldKey then
        (case v of
           GoString tmp \<Rightarrow>
             qb\<lparr>query := FilterField key operator (GoKey (NameKey (kind qb) tmp None)) (query qb)\<rparr>
         | _ \<Rightarrow> qb)
      else qb\<lparr>query := FilterField key operator v (query qb)\<rparr>)"

definition WithAncestorKey :: "Key option \<Rightarrow> ('x, 'c) QueryBuilder \<Rightarrow> ('x, 'c) QueryBuilder" where
  "WithAncestorKey ancestorKey qb =
     (case ancestorKey of
        Some k \<Rightarrow> qb\<lparr>query := Ancestor k (query qb)\<rparr>
      | None \<Rightarrow> qb)"

definition KeysOnly :: "('x, 'c) QueryBuilder \<Rightarrow> ('x, 'c) QueryBuilder" where
  "KeysOnly qb = qb\<lparr>query := KeysOnly_q (query qb)\<rparr>"

text \<open>
  The terminal operations reach the backend through \<^verbatim>\<open>qb.db.client\<close>. The model passes
  that client as the argument \<open>c\<close>: it covers builders whose handle holds a live client.
  A Go result tuple is a tuple; a nil slice is \<open>[]\<close>, a nil pointer or nil error \<open>None\<close>.
\<close>

definition Total ::
  "('x, 'w, 'i, 'a) Client \<Rightarrow> ('x, 'c) QueryBuilder \<Rightarrow> 'w session
   \<Rightarrow> (int \<times> error option) \<times> 'w session" where
  "Total c qb s =
     (let aggQuery' = WithCount ''total'' (NewAggregationQuery (query qb));
          r = issue (Call_RunAggregationQuery aggQuery')
                (RunAggregationQuery c (ctx qb) aggQuery') s;
          results = fst (fst r); err = snd (fst r); s' = snd r
      in case err of
           Some e \<Rightarrow> ((0, Some (FromClient e)), s')
         | None \<Rightarrow>
            (case results ''total'' of
               None \<Rightarrow> ((0, Some (errors_New ''count result not found'')), s')
             | Some (OtherGoType t) \<Rightarrow>
                 ((0, Some (fmt_Errorf ''unexpected count type: %T'' t)), s')
             | Some (PbValue val) \<Rightarrow> ((GetIntegerValue val, None), s')))"

text \<open>
  \<^verbatim>\<open>SelectWithCursor\<close>. \<^verbatim>\<open>make([]T, 0, qb.limit)\<close> is an empty slice whose capacity is
  only reserved space: \<open>make_slice\<close> is the empty list, and the model covers the runs in
  which the runtime grants the allocation. The \<^verbatim>\<open>for\<close> loop has no bound of its own: it
  ends when \<^verbatim>\<open>it.Next\<close> reports \<^verbatim>\<open>iterator.Done\<close> or another error, so \<open>SelectWithCursor_loop\<close>
  is a partial function and \<open>None\<close> stands for a run that never leaves the loop. The
  loop gives \<open>Inr result\<close> at \<^verbatim>\<open>break\<close> and \<open>Inl\<close> of the returned tuple at \<^verbatim>\<open>return\<close>.
\<close>

definition make_slice :: "int \<Rightarrow> 'a list" where
  "make_slice cap = []"

partial_function (option) SelectWithCursor_loop ::
  "('x, 'w, 'i, 'a) Client \<Rightarrow> string \<Rightarrow> 'i \<Rightarrow> 'a list \<Rightarrow> 'w session
   \<Rightarrow> ((('a list \<times> string \<times> error option) + 'a list) \<times> 'w session) option" where
  "SelectWithCursor_loop c kind' it result s =
     (let r = issue Call_Next (Iterator_Next c it) s in
      case fst r of
        Inl err \<Rightarrow>
          if errors_Is_Done err then Some (Inr result, snd r)
          else Some (Inl ([], [], Some (FromClient err)),
                 Println [S ''datastore'', S kind', S ''select-error'', E err] (snd r))
      | Inr entity \<Rightarrow> SelectWithCursor_loop c kind' it (result @ [entity]) (snd r))"

definition SelectWithCursor ::
  "('x, 'w, 'i, 'a) Client \<Rightarrow> ('x, 'c) QueryBuilder \<Rightarrow> 'w session
   \<Rightarrow> (('a list \<times> string \<times> error option) \<times> 'w session) option" where
  "SelectWithCursor c qb s =
     (if usingOffset qb then
        Some (([], [], Some (errors_New ''query defined to use offset instead of cursor'')), s)
      else
        (let result = make_slice (limit qb);
             r = issue (Call_Run (query qb)) (Run c (ctx qb) (query qb)) s;
             it = fst r
         in case SelectWithCursor_loop c (kind qb) it result (snd r) of
              None \<Rightarrow> None
            | Some (Inl ret, s') \<Rightarrow> Some (ret, s')
            | Some (Inr result', s') \<Rightarrow>
                (let r' = issue Call_Cursor (Iterator_Cursor c it) s';
                     cursor = fst (fst r'); err = snd (fst r')
                 in case err of
                      Some e \<Rightarrow> Some (([], [], Some (FromClient e)), snd r')
                    | None \<Rightarrow> Some ((result', Cursor_String c cursor, None), snd r'))))"

definition Select ::
  "('x, 'w, 'i, 'a) Client \<Rightarrow> ('x, 'c) QueryBuilder \<Rightarrow> 'w session
   \<Rightarrow> ('a list \<times> error option) \<times> 'w session" where
  "Select c qb s =
     (if usingCursor qb then (([], Some (errors_New ''query defined to use cursor'')), s)
      else
        (let r = issue (Call_GetAll (query qb)) (GetAll c (ctx qb) (query qb)) s;
             result = fst (snd (fst r)); err = snd (snd (fst r))
         in case err of
              Some e \<Rightarrow>
                (([], Some (FromClient e)),
                 Println [S ''datastore'', S (kind qb), S ''select-error'', E e] (snd r))
            | None \<Rightarrow> ((result, None), snd r)))"

text \<open>\<^verbatim>\<open>Get\<close> returns a \<^verbatim>\<open>*T\<close>: \<open>None\<close> is the nil pointer.\<close>

definition Get ::
  "('x, 'w, 'i, 'a) Client \<Rightarrow> ('x, 'c) QueryBuilder \<Rightarrow> 'w session
   \<Rightarrow> ('a option \<times> error option) \<times> 'w session" where
  "Get c qb s =
     (if usingCursor qb then ((None, Some (errors_New ''query defined to use cursor'')), s)
      else
        (let r = Select c qb s; tmp = fst (fst r); err = snd (fst r)
         in case err of
              Some e \<Rightarrow> ((None, Some e), snd r)
            | None \<Rightarrow>
                if length tmp > 0 then ((Some (tmp ! 0), None), snd r)
                else ((None, None), snd r)))"

text \<open>
  \<^verbatim>\<open>Delete\<close>. The loop variable \<^verbatim>\<open>i\<close> and \<^verbatim>\<open>totalKey\<close> are Go \<^verbatim>\<open>int\<close>s between 0 and the
  length of a slice held in memory, far from the 64-bit range, so they are natural
  numbers here. \<^verbatim>\<open>keys[i:end]\<close> is in range (\<open>i \<le> end \<le> len(keys)\<close>) and is
  \<open>take (end - i) (drop i keys)\<close>. \<^verbatim>\<open>qb.query.KeysOnly()\<close> does not change the builder.
\<close>

function Delete_loop ::
  "('x, 'w, 'i, 'a) Client \<Rightarrow> 'x \<Rightarrow> string \<Rightarrow> Key list \<Rightarrow> nat \<Rightarrow> 'w session
   \<Rightarrow> error option \<times> 'w session" where
  "Delete_loop c cx kind' keys i s =
     (if i < length keys then
        (let end' = (if i + 500 > length keys then length keys else i + 500);
             batch = take (end' - i) (drop i keys);
             r = issue (Call_DeleteMulti batch) (DeleteMulti c cx batch) s
         in case fst r of
              Some err \<Rightarrow>
                (Some (FromClient err),
                 Println [S ''datastore'', S kind', S ''delete'', S ''delete-multi'',
                          S ''error'', E err] (snd r))
            | None \<Rightarrow> Delete_loop c cx kind' keys (i + 500) (snd r))
      else (None, s))"
  by pat_completeness auto
termination
  by (relation "measure (\<lambda>(c, cx, kind', keys, i, s). length keys - i)") auto

declare Delete_loop.simps [simp del]

definition Delete ::
  "('x, 'w, 'i, 'a) Client \<Rightarrow> ('x, 'c) QueryBuilder \<Rightarrow> 'w session
   \<Rightarrow> error option \<times> 'w session" where
  "Delete c qb s =
     (let r = issue (Call_GetAll (KeysOnly_q (query qb)))
                (GetAll c (ctx qb) (KeysOnly_q (query qb))) s;
          keys = fst (fst r); err = snd (snd (fst r))
      in case err of
           Some e \<Rightarrow>
             (Some (FromClient e),
              Println [S ''datastore'', S (kind qb), S ''delete'', S ''get-all'',
                       S ''error'', E e] (snd r))
         | None \<Rightarrow>
             (let totalKey = length keys
              in if totalKey > 0 then Delete_loop c (ctx qb) (kind qb) keys 0 (snd r)
                 else (None, snd r)))"

text \<open>
  Modelled from the spec: \<^verbatim>\<open>GetMulti\<close> is described by the spec (4.4) and the README
  (\<^verbatim>\<open>dsx.GetMulti[User](db, ctx, "User", ids)\<close>), but its code is not in dsx.go. It
  fetches the entities for a sequence of ids in one call, in the order of the ids, with a
  zero value of \<^verbatim>\<open>T\<close> at the position of every id the backend has no entity for. The
  backend is given by \<open>lookup\<close> (the entity stored under a key, if any) and \<open>fails\<close> (the
  error with which the one call as a whole fails, if it does); \<open>zero\<close> is the zero value.
\<close>

definition GetMulti ::
  "(Key \<Rightarrow> 'w \<Rightarrow> 'a option) \<Rightarrow> ('x \<Rightarrow> Key list \<Rightarrow> 'w \<Rightarrow> client_error option) \<Rightarrow> 'a
   \<Rightarrow> 'x \<Rightarrow> string \<Rightarrow> string list \<Rightarrow> 'w session \<Rightarrow> ('a list \<times> error option) \<times> 'w session" where
  "GetMulti lookup fails zero cx kind' ids s =
     (let keys = map (\<lambda>id. NameKey kind' id None) ids;
          r = issue (Call_GetMulti keys)
                (\<lambda>w. ((map (\<lambda>k. case lookup k w of Some e \<Rightarrow> e | None \<Rightarrow> zero) keys,
                        fails cx keys w), w)) s;
          result = fst (fst r); err = snd (fst r)
      in case err of
           Some e \<Rightarrow>
             (([], Some (FromClient e)),
              Println [S ''datastore'', S ''get-multi'', S kind', S ''error'', E e] (snd r))
         | None \<Rightarrow> ((result, None), snd r))"

section \<open>The vocabulary of the specification\<close>

text \<open>
  The spec's error classes, by the errors dsx.go creates: \<open>PaginationConflict\<close> for the
  two messages of \<^verbatim>\<open>Select\<close>/\<^verbatim>\<open>Get\<close> and \<^verbatim>\<open>SelectWithCursor\<close>, \<open>AggregationError\<close> for the
  two of \<^verbatim>\<open>Total\<close>, \<open>BackendError\<close> for an error that the client reported.
\<close>

fun PaginationConflict :: "error \<Rightarrow> bool" where
  "PaginationConflict (errors_New m) =
     (m = ''query defined to use cursor'' \<or> m = ''query defined to use offset instead of cursor'')"
| "PaginationConflict (fmt_Errorf f t) = False"
| "PaginationConflict (FromClient e) = False"

fun AggregationError :: "error \<Rightarrow> bool" where
  "AggregationError (errors_New m) = (m = ''count result not found'')"
| "AggregationError (fmt_Errorf f t) = (f = ''unexpected count type: %T'')"
| "AggregationError (FromClient e) = False"

fun BackendError :: "error \<Rightarrow> bool" where
  "BackendError (FromClient e) = True"
| "BackendError (errors_New m) = False"
| "BackendError (fmt_Errorf f t) = False"

text \<open>
  \<open>chunks n xs\<close>: \<open>xs\<close> cut into consecutive pieces of \<open>n\<close> elements, the last one
  shorter when \<open>n\<close> does not divide the length; there are \<open>\<lceil>length xs / n\<rceil>\<close> of them.
\<close>

definition chunks :: "nat \<Rightarrow> 'b list \<Rightarrow> 'b list list" where
  "chunks n xs = map (\<lambda>j. take n (drop (j * n) xs)) [0 ..< (length xs + n - 1) div n]"

text \<open>
  \<open>submit c cx bs w\<close>: the backend is handed the batches \<open>bs\<close> one \<^verbatim>\<open>DeleteMulti\<close> call
  after the other, from state \<open>w\<close>, and no batch after one that failed. The result is
  the number of calls made, the error of the last one (if it failed) and the backend's
  state after it.
\<close>

fun submit ::
  "('x, 'w, 'i, 'a) Client \<Rightarrow> 'x \<Rightarrow> Key list list \<Rightarrow> 'w \<Rightarrow> nat \<times> client_error option \<times> 'w" where
  "submit c cx [] w = (0, None, w)"
| "submit c cx (b # bs) w =
     (case DeleteMulti c cx b w of
        (Some e, w') \<Rightarrow> (1, Some e, w')
      | (None, w') \<Rightarrow> (case submit c cx bs w' of (k, r) \<Rightarrow> (Suc k, r)))"

text \<open>
  \<open>drain c it n w\<close>: \<open>n\<close> calls of \<^verbatim>\<open>it.Next\<close> in a row from state \<open>w\<close>, each of
  which loads an entity: the entities in order and the state after the last call.
  \<open>None\<close> when one of the \<open>n\<close> calls reports an error instead.
\<close>

fun drain :: "('x, 'w, 'i, 'a) Client \<Rightarrow> 'i \<Rightarrow> nat \<Rightarrow> 'w \<Rightarrow> ('a list \<times> 'w) option" where
  "drain c it 0 w = Some ([], w)"
| "drain c it (Suc n) w =
     (case Iterator_Next c it w of
        (Inl e, w') \<Rightarrow> None
      | (Inr x, w') \<Rightarrow>
          (case drain c it n w' of None \<Rightarrow> None | Some (xs, w'') \<Rightarrow> Some (x # xs, w'')))"

section \<open>An in-memory client\<close>

text \<open>
  A small client to run the operations on: the backend holds a list of keyed entities
  (strings) and the position of the iterator. \<^verbatim>\<open>DeleteMulti\<close> refuses a batch that holds
  a key named \<open>locked\<close>, \<^verbatim>\<open>it.Next\<close> fails on an entity \<open>corrupt\<close>, and the cursor
  \<open>AAA\<close> does not decode.
\<close>

record mem =
  stored :: "(Key \<times> string) list"
  position :: nat

definition mem_client :: "(unit, mem, unit, string) Client" where
  "mem_client = \<lparr>
     GetAll = (\<lambda>cx q w. ((map fst (stored w), map snd (stored w), None), w)),
     Run = (\<lambda>cx q w. ((), w\<lparr>position := 0\<rparr>)),
     Iterator_Next = (\<lambda>it w.
        if position w < length (stored w) then
          (if snd (stored w ! position w) = ''corrupt''
           then (Inl (Failure ''cannot load entity''), w)
           else (Inr (snd (stored w ! position w)), w\<lparr>position := position w + 1\<rparr>))
        else (Inl IteratorDone, w)),
     Iterator_Cursor = (\<lambda>it w. ((CursorBytes (replicate (position w) CHR ''+''), None), w)),
     RunAggregationQuery = (\<lambda>cx a w.
        (([''total'' \<mapsto> PbValue (Some (IntegerValue (int (length (stored w)))))], None), w)),
     DeleteMulti = (\<lambda>cx batch w.
        if list_ex (\<lambda>k. keyName k = ''locked'') batch then (Some (Failure ''locked''), w)
        else (None, w\<lparr>stored := filter (\<lambda>p. fst p \<notin> set batch) (stored w)\<rparr>)),
     DecodeCursor = (\<lambda>tok.
        if tok = ''AAA'' then (CursorBytes [], Some (Failure ''illegal base64 data''))
        else (CursorBytes tok, None)),
     Cursor_String = (\<lambda>cur. case cur of CursorBytes bs \<Rightarrow> bs)\<rparr>"

definition users :: "(unit, unit) QueryBuilder" where
  "users = Query (Some \<lparr>client = Some (), projectId = ''my-project'', databaseId = []\<rparr>) ()
     ''User''"

definition session_of :: "(Key \<times> string) list \<Rightarrow> mem session" where
  "session_of es = \<lparr>backend = \<lparr>stored = es, position = 0\<rparr>, calls = [], logs = []\<rparr>"

definition user :: "string \<Rightarrow> Key" where
  "user name = NameKey ''User'' name None"

definition two_users :: "(Key \<times> string) list" where
  "two_users = [(user ''a'', ''Alice''), (user ''b'', ''Bob'')]"

definition damaged_users :: "(Key \<times> string) list" where
  "damaged_users = [(user ''a'', ''Alice''), (user ''b'', ''corrupt''), (user ''c'', ''Carol'')]"

definition many_users :: "(Key \<times> string) list" where
  "many_users = replicate 500 (user ''a'', ''x'') @ [(user ''locked'', ''x'')] @
     replicate 500 (user ''b'', ''x'')"

section \<open>The builder\<close>

text \<open>
  C3. \<^verbatim>\<open>WithFilter\<close> on the field \<open>__key__\<close> with a string value appends one predicate
  whose value is the key made of the builder's kind and that string; on \<open>__key__\<close>
  with a value that is not a string it returns the builder as it was; on any other field
  it appends the predicate \<open>(field, operator, value)\<close> as given. Nothing else in the
  builder changes.
\<close>

theorem WithFilter_predicate:
  "(key = FieldKey \<longrightarrow>
      (\<forall>tmp. v = GoString tmp \<longrightarrow>
         WithFilter key operator v qb =
           qb\<lparr>query := (query qb)\<lparr>qFilters := qFilters (query qb) @
                  [(FieldKey, operator, GoKey (NameKey (kind qb) tmp None))]\<rparr>\<rparr>) \<and>
      ((\<forall>tmp. v \<noteq> GoString tmp) \<longrightarrow> WithFilter key operator v qb = qb)) \<and>
   (key \<noteq> FieldKey \<longrightarrow>
      WithFilter key operator v qb =
        qb\<lparr>query := (query qb)\<lparr>qFilters := qFilters (query qb) @ [(key, operator, v)]\<rparr>\<rparr>)"
  by (cases v) (simp_all add: WithFilter_def FilterField_def)

theorem WithFilter_predicate_witness:
  "qFilters (query (WithFilter FieldKey OpEqual (GoString ''user-123'') users)) =
     [(''__key__'', ''='', GoKey (Key ''User'' ''user-123'' None))] \<and>
   WithFilter FieldKey OpEqual (GoInt 123) users = users \<and>
   qFilters (query (WithFilter ''Age'' OpGreaterEqual (GoInt 18) users)) =
     [(''Age'', ''>='', GoInt 18)]"
  using WithFilter_predicate [of FieldKey "GoString ''user-123''" OpEqual users]
    WithFilter_predicate [of FieldKey "GoInt 123" OpEqual users]
    WithFilter_predicate [of "''Age''" "GoInt 18" OpGreaterEqual users]
  by (simp add: FieldKey_def OpEqual_def OpGreaterEqual_def users_def Query_def NewQuery_def
        NameKey_def)

text \<open>
  C4. \<^verbatim>\<open>WithCursor\<close> sets the decoded token as the query's start and sets
  \<open>usingCursor\<close> when the token is not empty and decodes without error; otherwise it
  returns the builder unchanged. So on a builder not yet using a cursor the flag is true
  afterwards exactly when the token is non-empty and decodes, and an empty or malformed
  token leaves the flag false and the start unset. The result is the builder alone: the
  operation has no error to report.
\<close>

theorem WithCursor_applied:
  "(cursor \<noteq> [] \<and> snd (DecodeCursor c cursor) = None \<longrightarrow>
      WithCursor c cursor qb =
        qb\<lparr>query := (query qb)\<lparr>qStart := Some (fst (DecodeCursor c cursor))\<rparr>,
           usingCursor := True\<rparr>) \<and>
   (\<not> (cursor \<noteq> [] \<and> snd (DecodeCursor c cursor) = None) \<longrightarrow> WithCursor c cursor qb = qb) \<and>
   (\<not> usingCursor qb \<longrightarrow>
      (usingCursor (WithCursor c cursor qb) \<longleftrightarrow>
         cursor \<noteq> [] \<and> snd (DecodeCursor c cursor) = None)) \<and>
   (\<not> usingCursor qb \<and> qStart (query qb) = None \<and>
      \<not> (cursor \<noteq> [] \<and> snd (DecodeCursor c cursor) = None) \<longrightarrow>
      \<not> usingCursor (WithCursor c cursor qb) \<and> qStart (query (WithCursor c cursor qb)) = None)"
  by (cases "DecodeCursor c cursor") (auto simp: WithCursor_def Start_def split: option.splits)

theorem WithCursor_applied_witness:
  "usingCursor (WithCursor mem_client ''++'' users) \<and>
   qStart (query (WithCursor mem_client ''++'' users)) = Some (CursorBytes ''++'') \<and>
   WithCursor mem_client [] users = users \<and>
   WithCursor mem_client ''AAA'' users = users \<and>
   \<not> usingCursor (WithCursor mem_client ''AAA'' users) \<and>
   qStart (query (WithCursor mem_client ''AAA'' users)) = None"
  using WithCursor_applied [of "''++''" mem_client users]
    WithCursor_applied [of "[]" mem_client users]
    WithCursor_applied [of "''AAA''" mem_client users]
  by (simp add: mem_client_def users_def Query_def NewQuery_def)

text \<open>
  C5. \<^verbatim>\<open>WithLimit n\<close> sets the limit (the builder's and the query's) when \<open>n > 0\<close> and
  returns the builder unchanged when \<open>n \<le> 0\<close>. \<^verbatim>\<open>WithOffset n\<close> sets the query's offset
  and \<open>usingOffset\<close> when \<open>n > 0\<close> and returns the builder unchanged when \<open>n \<le> 0\<close>.
  It never changes \<open>usingCursor\<close> and its result does not depend on it, so offset and
  cursor, set in either order, leave a builder with both flags true.
\<close>

theorem WithLimit_WithOffset:
  "(0 < n \<longrightarrow> WithLimit n qb = qb\<lparr>query := (query qb)\<lparr>qLimit := Some n\<rparr>, limit := n\<rparr>) \<and>
   (n \<le> 0 \<longrightarrow> WithLimit n qb = qb) \<and>
   (0 < n \<longrightarrow>
      WithOffset n qb = qb\<lparr>query := (query qb)\<lparr>qOffset := Some n\<rparr>, usingOffset := True\<rparr>) \<and>
   (n \<le> 0 \<longrightarrow> WithOffset n qb = qb) \<and>
   usingCursor (WithOffset n qb) = usingCursor qb \<and>
   WithOffset n (qb\<lparr>usingCursor := b\<rparr>) = (WithOffset n qb)\<lparr>usingCursor := b\<rparr> \<and>
   (0 < n \<and> cursor \<noteq> [] \<and> snd (DecodeCursor c cursor) = None \<longrightarrow>
      usingOffset (WithOffset n (WithCursor c cursor qb)) \<and>
      usingCursor (WithOffset n (WithCursor c cursor qb)) \<and>
      usingOffset (WithCursor c cursor (WithOffset n qb)) \<and>
      usingCursor (WithCursor c cursor (WithOffset n qb)))"
  by (cases "DecodeCursor c cursor")
    (auto simp: WithLimit_def WithOffset_def WithCursor_def Limit_def Offset_def)

theorem WithLimit_WithOffset_witness:
  "limit (WithLimit 10 users) = 10 \<and> qLimit (query (WithLimit 10 users)) = Some 10 \<and>
   WithLimit 0 (WithLimit 10 users) = WithLimit 10 users \<and>
   WithLimit (- 3) (WithLimit 10 users) = WithLimit 10 users \<and>
   usingOffset (WithOffset 20 users) \<and> qOffset (query (WithOffset 20 users)) = Some 20 \<and>
   WithOffset 0 users = users \<and> WithOffset (- 1) users = users \<and>
   usingOffset (WithOffset 20 (WithCursor mem_client ''++'' users)) \<and>
   usingCursor (WithOffset 20 (WithCursor mem_client ''++'' users))"
  using WithLimit_WithOffset [of 10 users False "''++''" mem_client]
    WithLimit_WithOffset [of 0 "WithLimit 10 users" False "''++''" mem_client]
    WithLimit_WithOffset [of "- 3" "WithLimit 10 users" False "''++''" mem_client]
    WithLimit_WithOffset [of 20 users False "''++''" mem_client]
    WithLimit_WithOffset [of 0 users False "''++''" mem_client]
    WithLimit_WithOffset [of "- 1" users False "''++''" mem_client]
  by (simp add: mem_client_def)

text \<open>
  C10. \<^verbatim>\<open>Connect\<close> always returns a handle (never the nil pointer): the handle carries
  the given project and database identifiers and whatever client the library's
  constructor returned, next to the constructor's error. When the constructor fails
  with no client, the result is a handle with a nil client together with the error.
\<close>

theorem Connect_handle:
  "fst (Connect new cx p d creds) \<noteq> None \<and>
   (\<forall>cl err. new cx p d (if creds \<noteq> [] then [WithCredentialsJSON creds] else []) = (cl, err) \<longrightarrow>
      Connect new cx p d creds = (Some \<lparr>client = cl, projectId = p, databaseId = d\<rparr>, err))"
  by (simp add: Connect_def Let_def)

theorem Connect_handle_witness:
  "Connect (\<lambda>cx p d opts. (None :: unit option, Some (Failure ''could not find credentials'')))
     () ''my-project'' ''my-db'' [] =
   (Some \<lparr>client = None, projectId = ''my-project'', databaseId = ''my-db''\<rparr>,
    Some (Failure ''could not find credentials''))"
  using Connect_handle [of "\<lambda>cx p d opts. (None :: unit option, Some (Failure ''could not find credentials''))"
      "()" "''my-project''" "''my-db''" "[]"]
  by simp

text \<open>
  The builder's limit is never negative: it starts at 0 and only \<^verbatim>\<open>WithLimit\<close> with a
  positive argument changes it.
\<close>

lemma limit_never_negative:
  "0 \<le> limit (Query d cx k) \<and>
   (0 \<le> limit qb \<longrightarrow>
      0 \<le> limit (WithDistinct qb) \<and> 0 \<le> limit (WithLimit n qb) \<and>
      0 \<le> limit (WithOffset n qb) \<and> 0 \<le> limit (WithOrder f qb) \<and>
      0 \<le> limit (WithOrderDesc f qb) \<and> 0 \<le> limit (WithCursor c tok qb) \<and>
      0 \<le> limit (WithFilter f operator v qb) \<and> 0 \<le> limit (WithAncestorKey a qb) \<and>
      0 \<le> limit (KeysOnly qb))"
  by (auto simp: Query_def WithDistinct_def WithLimit_def WithOffset_def WithOrder_def
        WithOrderDesc_def WithCursor_def WithFilter_def WithAncestorKey_def KeysOnly_def
      split: option.splits prod.splits go_value.splits)

section \<open>Running a query\<close>

lemma loop_error_from_client:
  assumes "SelectWithCursor_loop c k it acc s = Some y"
  shows "\<forall>ret s'. y = (Inl ret, s') \<longrightarrow> (\<exists>e. ret = ([], [], Some (FromClient e)))"
  by (rule SelectWithCursor_loop.raw_induct
    [where P = "\<lambda>c k it acc s y. \<forall>ret s'. y = (Inl ret, s') \<longrightarrow> (\<exists>e. ret = ([], [], Some (FromClient e)))",
     OF _ assms])
   (auto simp: Let_def split: sum.splits if_splits)

lemma SelectWithCursor_error_from_client:
  assumes "\<not> usingOffset qb" and "SelectWithCursor c qb s = Some ((r, cur, Some e), s')"
  shows "r = [] \<and> cur = [] \<and> (\<exists>e'. e = FromClient e')"
  using assms
  by (auto simp: SelectWithCursor_def Let_def split: option.splits sum.splits prod.splits
           dest!: loop_error_from_client)

lemma Select_error_from_client:
  assumes "\<not> usingCursor qb" and "snd (fst (Select c qb s)) = Some e"
  shows "\<exists>e'. e = FromClient e'"
  using assms by (auto simp: Select_def Let_def split: option.splits)

text \<open>
  C1. \<^verbatim>\<open>Select\<close> returns a \<open>PaginationConflict\<close> error exactly when \<open>usingCursor\<close> is
  set, and \<^verbatim>\<open>SelectWithCursor\<close> returns one exactly when \<open>usingOffset\<close> is set. In both
  rejected cases the session comes back as it was: no client call has been issued (and
  nothing logged, and the backend untouched).
\<close>

theorem pagination_exclusion:
  "((\<exists>e. snd (fst (Select c qb s)) = Some e \<and> PaginationConflict e) \<longleftrightarrow> usingCursor qb) \<and>
   ((\<exists>r cur e s'. SelectWithCursor c qb s = Some ((r, cur, Some e), s') \<and> PaginationConflict e)
      \<longleftrightarrow> usingOffset qb) \<and>
   (usingCursor qb \<longrightarrow> snd (Select c qb s) = s) \<and>
   (usingOffset qb \<longrightarrow> (\<exists>e. SelectWithCursor c qb s = Some (([], [], Some e), s)))"
proof (intro conjI)
  show "(\<exists>e. snd (fst (Select c qb s)) = Some e \<and> PaginationConflict e) \<longleftrightarrow> usingCursor qb"
  proof
    assume "\<exists>e. snd (fst (Select c qb s)) = Some e \<and> PaginationConflict e"
    then obtain e where e: "snd (fst (Select c qb s)) = Some e" "PaginationConflict e" by blast
    show "usingCursor qb"
    proof (rule ccontr)
      assume "\<not> usingCursor qb"
      from Select_error_from_client [OF this e(1)] e(2) show False by auto
    qed
  next
    assume "usingCursor qb"
    then show "\<exists>e. snd (fst (Select c qb s)) = Some e \<and> PaginationConflict e"
      by (simp add: Select_def)
  qed
next
  show "(\<exists>r cur e s'. SelectWithCursor c qb s = Some ((r, cur, Some e), s') \<and> PaginationConflict e)
      \<longleftrightarrow> usingOffset qb"
  proof
    assume "\<exists>r cur e s'. SelectWithCursor c qb s = Some ((r, cur, Some e), s') \<and> PaginationConflict e"
    then obtain r cur e s' where e: "SelectWithCursor c qb s = Some ((r, cur, Some e), s')"
      "PaginationConflict e" by blast
    show "usingOffset qb"
    proof (rule ccontr)
      assume "\<not> usingOffset qb"
      from SelectWithCursor_error_from_client [OF this e(1)] e(2) show False by auto
    qed
  next
    assume "usingOffset qb"
    then show "\<exists>r cur e s'. SelectWithCursor c qb s = Some ((r, cur, Some e), s') \<and> PaginationConflict e"
      by (simp add: SelectWithCursor_def)
  qed
next
  show "usingCursor qb \<longrightarrow> snd (Select c qb s) = s" by (simp add: Select_def)
next
  show "usingOffset qb \<longrightarrow> (\<exists>e. SelectWithCursor c qb s = Some (([], [], Some e), s))"
    by (simp add: SelectWithCursor_def)
qed

theorem pagination_exclusion_witness:
  "usingCursor (WithCursor mem_client ''++'' users) \<and>
   Select mem_client (WithCursor mem_client ''++'' users) (session_of two_users) =
     (([], Some (errors_New ''query defined to use cursor'')), session_of two_users) \<and>
   usingOffset (WithOffset 20 users) \<and>
   SelectWithCursor mem_client (WithOffset 20 users) (session_of two_users) =
     Some (([], [], Some (errors_New ''query defined to use offset instead of cursor'')),
           session_of two_users)"
  using pagination_exclusion [of mem_client "WithCursor mem_client ''++'' users" "session_of two_users"]
    pagination_exclusion [of mem_client "WithOffset 20 users" "session_of two_users"]
  by (simp add: Select_def SelectWithCursor_def WithCursor_def WithOffset_def mem_client_def
        users_def Query_def)

text \<open>
  C6. On a builder that does not use a cursor, \<^verbatim>\<open>Get\<close> returns a pointer to the first
  entity of what \<^verbatim>\<open>Select\<close> returns when that is not empty, and the nil pointer with
  no error when it is empty (an error of \<^verbatim>\<open>Select\<close> is handed on). On a builder that
  uses a cursor it fails with the same \<open>PaginationConflict\<close> error as \<^verbatim>\<open>Select\<close>,
  without a client call.
\<close>

theorem Get_first:
  "(\<not> usingCursor qb \<longrightarrow>
      (\<forall>x xs s'. Select c qb s = ((x # xs, None), s') \<longrightarrow> Get c qb s = ((Some x, None), s')) \<and>
      (\<forall>s'. Select c qb s = (([], None), s') \<longrightarrow> Get c qb s = ((None, None), s')) \<and>
      (\<forall>r e s'. Select c qb s = ((r, Some e), s') \<longrightarrow> Get c qb s = ((None, Some e), s'))) \<and>
   (usingCursor qb \<longrightarrow>
      (\<exists>e. PaginationConflict e \<and> Get c qb s = ((None, Some e), s) \<and>
           Select c qb s = (([], Some e), s)))"
  by (auto simp: Get_def Let_def) (simp_all add: Select_def)

theorem Get_first_witness:
  "fst (Get mem_client users (session_of two_users)) = (Some ''Alice'', None) \<and>
   fst (Get mem_client users (session_of [])) = (None, None) \<and>
   Get mem_client (WithCursor mem_client ''++'' users) (session_of two_users) =
     ((None, Some (errors_New ''query defined to use cursor'')), session_of two_users)"
  using Get_first [of users mem_client "session_of two_users"]
    Get_first [of users mem_client "session_of []"]
    Get_first [of "WithCursor mem_client ''++'' users" mem_client "session_of two_users"]
  by (simp add: Select_def WithCursor_def mem_client_def users_def Query_def issue_def
        session_of_def two_users_def Let_def)

text \<open>
  The type assertion in \<^verbatim>\<open>Total\<close> looks at the Go type only: a \<^verbatim>\<open>*datastorepb.Value\<close>
  that holds no integer (or is nil) passes it, and the getter then gives 0.
\<close>

lemma Total_value_without_integer:
  assumes "RunAggregationQuery c (ctx qb) (WithCount ''total'' (NewAggregationQuery (query qb)))
             (backend s) = ((results, None), w)"
    and "results ''total'' = Some (PbValue v)" and "\<forall>n. v \<noteq> Some (IntegerValue n)"
  shows "fst (Total c qb s) = (0, None)"
  using assms by (cases v rule: GetIntegerValue.cases) (auto simp: Total_def Let_def issue_def)

text \<open>
  C7, as the code has it. Let the aggregation query answer with the map \<open>results\<close> and
  the error \<open>err\<close>. \<^verbatim>\<open>Total\<close> returns the count when there is no error and \<open>results\<close>
  holds an integer value under \<open>total\<close>. It returns 0 with an \<open>AggregationError\<close> (which
  is not a \<open>BackendError\<close>) when there is no error and \<open>total\<close> is absent or holds a
  value whose Go type is not \<^verbatim>\<open>*datastorepb.Value\<close>. When \<open>total\<close> holds a
  \<^verbatim>\<open>*datastorepb.Value\<close> that carries no integer (another kind of value, or a nil
  pointer), it returns 0 and no error at all. An error of the backend comes back as
  such, with 0. One client call is issued in every case.
\<close>

theorem Total_count:
  assumes "RunAggregationQuery c (ctx qb) (WithCount ''total'' (NewAggregationQuery (query qb)))
             (backend s) = ((results, err), w)"
  shows "(err = None \<and> results ''total'' = Some (PbValue (Some (IntegerValue n))) \<longrightarrow>
            fst (Total c qb s) = (n, None)) \<and>
         (err = None \<and> (results ''total'' = None \<or> (\<exists>t. results ''total'' = Some (OtherGoType t))) \<longrightarrow>
            (\<exists>e. fst (Total c qb s) = (0, Some e) \<and> AggregationError e \<and> \<not> BackendError e)) \<and>
         (err = None \<and>
            (\<exists>v. results ''total'' = Some (PbValue v) \<and> (\<forall>m. v \<noteq> Some (IntegerValue m))) \<longrightarrow>
            fst (Total c qb s) = (0, None)) \<and>
         (\<forall>e. err = Some e \<longrightarrow>
            fst (Total c qb s) = (0, Some (FromClient e)) \<and> BackendError (FromClient e) \<and>
            \<not> AggregationError (FromClient e)) \<and>
         snd (Total c qb s) = s\<lparr>backend := w, calls := calls s @
            [Call_RunAggregationQuery (WithCount ''total'' (NewAggregationQuery (query qb)))]\<rparr>"
proof -
  have count: "err = None \<and> results ''total'' = Some (PbValue (Some (IntegerValue n))) \<longrightarrow>
      fst (Total c qb s) = (n, None)"
    using assms by (simp add: Total_def Let_def issue_def)
  have shape: "err = None \<and>
      (results ''total'' = None \<or> (\<exists>t. results ''total'' = Some (OtherGoType t))) \<longrightarrow>
      (\<exists>e. fst (Total c qb s) = (0, Some e) \<and> AggregationError e \<and> \<not> BackendError e)"
    using assms by (auto simp: Total_def Let_def issue_def)
  have silent: "err = None \<and>
      (\<exists>v. results ''total'' = Some (PbValue v) \<and> (\<forall>m. v \<noteq> Some (IntegerValue m))) \<longrightarrow>
      fst (Total c qb s) = (0, None)"
    using assms Total_value_without_integer [of c qb s results w] by blast
  have failed: "\<forall>e. err = Some e \<longrightarrow>
      fst (Total c qb s) = (0, Some (FromClient e)) \<and> BackendError (FromClient e) \<and>
      \<not> AggregationError (FromClient e)"
    using assms by (simp add: Total_def Let_def issue_def)
  have one_call: "snd (Total c qb s) = s\<lparr>backend := w, calls := calls s @
      [Call_RunAggregationQuery (WithCount ''total'' (NewAggregationQuery (query qb)))]\<rparr>"
    using assms
    by (auto simp: Total_def Let_def issue_def split: option.splits agg_value.splits)
  from count shape silent failed one_call show ?thesis by blast
qed

theorem Total_count_witness:
  "fst (Total mem_client users (session_of two_users)) = (2, None) \<and>
   fst (Total (mem_client\<lparr>RunAggregationQuery := \<lambda>cx a w. ((Map.empty, None), w)\<rparr>) users
          (session_of two_users)) = (0, Some (errors_New ''count result not found'')) \<and>
   fst (Total (mem_client\<lparr>RunAggregationQuery :=
                  \<lambda>cx a w. (([''total'' \<mapsto> OtherGoType ''float64''], None), w)\<rparr>) users
          (session_of two_users)) = (0, Some (fmt_Errorf ''unexpected count type: %T'' ''float64'')) \<and>
   fst (Total (mem_client\<lparr>RunAggregationQuery :=
                  \<lambda>cx a w. (([''total'' \<mapsto> PbValue None], None), w)\<rparr>) users
          (session_of two_users)) = (0, None) \<and>
   fst (Total (mem_client\<lparr>RunAggregationQuery :=
                  \<lambda>cx a w. ((Map.empty, Some (Failure ''deadline exceeded'')), w)\<rparr>) users
          (session_of two_users)) = (0, Some (FromClient (Failure ''deadline exceeded'')))"
  using Total_count [of mem_client users "session_of two_users"
      "[''total'' \<mapsto> PbValue (Some (IntegerValue 2))]" None "backend (session_of two_users)" 2]
    Total_count [of "mem_client\<lparr>RunAggregationQuery := \<lambda>cx a w. ((Map.empty, None), w)\<rparr>" users
      "session_of two_users" Map.empty None "backend (session_of two_users)" 0]
    Total_count [of "mem_client\<lparr>RunAggregationQuery :=
                  \<lambda>cx a w. (([''total'' \<mapsto> OtherGoType ''float64''], None), w)\<rparr>" users
      "session_of two_users" "[''total'' \<mapsto> OtherGoType ''float64'']" None
      "backend (session_of two_users)" 0]
    Total_count [of "mem_client\<lparr>RunAggregationQuery :=
                  \<lambda>cx a w. (([''total'' \<mapsto> PbValue None], None), w)\<rparr>" users
      "session_of two_users" "[''total'' \<mapsto> PbValue None]" None
      "backend (session_of two_users)" 0]
    Total_count [of "mem_client\<lparr>RunAggregationQuery :=
                  \<lambda>cx a w. ((Map.empty, Some (Failure ''deadline exceeded'')), w)\<rparr>" users
      "session_of two_users" Map.empty "Some (Failure ''deadline exceeded'')"
      "backend (session_of two_users)" 0]
  by (simp add: Total_def issue_def Let_def WithCount_def NewAggregationQuery_def mem_client_def
        session_of_def two_users_def)

text \<open>
  The specification (4.3) expects an \<open>AggregationError\<close> whenever the value under
  \<open>total\<close> is not integer-typed. A backend that answers the count with a string value
  (a \<^verbatim>\<open>*datastorepb.Value\<close>, so the type assertion succeeds) refutes it: \<^verbatim>\<open>Total\<close>
  returns 0 with a nil error, and so no \<open>AggregationError\<close>.
\<close>

theorem Total_count_counterexample:
  "fst (Total (mem_client\<lparr>RunAggregationQuery :=
                  \<lambda>cx a w. (([''total'' \<mapsto> PbValue (Some (StringValue ''two''))], None), w)\<rparr>)
          users (session_of two_users)) = (0, None) \<and>
   \<not> (\<exists>e. fst (Total (mem_client\<lparr>RunAggregationQuery :=
                  \<lambda>cx a w. (([''total'' \<mapsto> PbValue (Some (StringValue ''two''))], None), w)\<rparr>)
               users (session_of two_users)) = (0, Some e) \<and> AggregationError e)"
  by (simp add: Total_def issue_def Let_def WithCount_def NewAggregationQuery_def mem_client_def
        session_of_def two_users_def)

lemma loop_drain:
  "drain c it n (backend s) = Some (es, w2) \<Longrightarrow>
   SelectWithCursor_loop c k it acc s =
   SelectWithCursor_loop c k it (acc @ es)
     (s\<lparr>backend := w2, calls := calls s @ replicate n Call_Next\<rparr>)"
proof (induction n arbitrary: s acc es)
  case 0
  then have "es = []" and "w2 = backend s" by simp_all
  then show ?case by simp
next
  case (Suc n)
  from Suc.prems obtain x w' xs where
    nxt: "Iterator_Next c it (backend s) = (Inr x, w')" and
    rest: "drain c it n w' = Some (xs, w2)" and es: "es = x # xs"
    by (auto split: prod.splits sum.splits option.splits)
  let ?s' = "s\<lparr>backend := w', calls := calls s @ [Call_Next]\<rparr>"
  have "SelectWithCursor_loop c k it acc s = SelectWithCursor_loop c k it (acc @ [x]) ?s'"
    by (subst SelectWithCursor_loop.simps) (simp add: issue_def Let_def nxt)
  also have "\<dots> = SelectWithCursor_loop c k it ((acc @ [x]) @ xs)
      (?s'\<lparr>backend := w2, calls := calls ?s' @ replicate n Call_Next\<rparr>)"
    using rest by (intro Suc.IH) simp
  finally show ?case by (simp add: es replicate_app_Cons_same)
qed

lemma loop_last:
  assumes "Iterator_Next c it (backend s) = (Inl e, w3)"
  shows "SelectWithCursor_loop c k it acc s =
     (if errors_Is_Done e then Some (Inr acc, s\<lparr>backend := w3, calls := calls s @ [Call_Next]\<rparr>)
      else Some (Inl ([], [], Some (FromClient e)),
             s\<lparr>backend := w3, calls := calls s @ [Call_Next],
               logs := logs s @ [[S ''datastore'', S k, S ''select-error'', E e]]\<rparr>))"
  by (subst SelectWithCursor_loop.simps) (simp add: issue_def Let_def assms Println_def)

text \<open>
  C8. On a builder that does not use an offset, let the iterator that \<^verbatim>\<open>Run\<close> returns
  load \<open>n\<close> entities \<open>es\<close> in \<open>n\<close> calls of \<^verbatim>\<open>it.Next\<close> and answer the next call
  with the error \<open>e\<close>. If \<open>e\<close> is \<^verbatim>\<open>iterator.Done\<close>, \<^verbatim>\<open>SelectWithCursor\<close> asks the
  same iterator, in the state that call left, for its cursor and returns \<open>es\<close> with
  the cursor's string (or, if the cursor cannot be had, that error with a nil list and
  an empty cursor). If \<open>e\<close> is any other error, \<^verbatim>\<open>SelectWithCursor\<close> returns it at once
  with a nil list and an empty cursor: the \<open>n\<close> entities already collected are
  dropped, no further call is made, and the error is logged.
\<close>

theorem SelectWithCursor_collects:
  assumes "\<not> usingOffset qb"
    and "Run c (ctx qb) (query qb) (backend s) = (it, w1)"
    and "drain c it n w1 = Some (es, w2)"
    and "Iterator_Next c it w2 = (Inl e, w3)"
  shows
   "(errors_Is_Done e \<longrightarrow>
       (\<forall>cur w4. Iterator_Cursor c it w3 = ((cur, None), w4) \<longrightarrow>
          SelectWithCursor c qb s =
            Some ((es, Cursor_String c cur, None),
                  s\<lparr>backend := w4,
                    calls := calls s @ [Call_Run (query qb)] @ replicate (Suc n) Call_Next @
                             [Call_Cursor]\<rparr>)) \<and>
       (\<forall>cur e' w4. Iterator_Cursor c it w3 = ((cur, Some e'), w4) \<longrightarrow>
          SelectWithCursor c qb s =
            Some (([], [], Some (FromClient e')),
                  s\<lparr>backend := w4,
                    calls := calls s @ [Call_Run (query qb)] @ replicate (Suc n) Call_Next @
                             [Call_Cursor]\<rparr>))) \<and>
    (\<not> errors_Is_Done e \<longrightarrow>
       SelectWithCursor c qb s =
         Some (([], [], Some (FromClient e)),
               s\<lparr>backend := w3,
                 calls := calls s @ [Call_Run (query qb)] @ replicate (Suc n) Call_Next,
                 logs := logs s @ [[S ''datastore'', S (kind qb), S ''select-error'', E e]]\<rparr>))"
proof -
  let ?s1 = "s\<lparr>backend := w1, calls := calls s @ [Call_Run (query qb)]\<rparr>"
  let ?s2 = "?s1\<lparr>backend := w2, calls := calls ?s1 @ replicate n Call_Next\<rparr>"
  have "SelectWithCursor_loop c (kind qb) it [] ?s1 = SelectWithCursor_loop c (kind qb) it ([] @ es) ?s2"
    using assms(3) by (intro loop_drain) simp
  moreover have "Iterator_Next c it (backend ?s2) = (Inl e, w3)"
    using assms(4) by simp
  note loop_last [OF this, of "kind qb" es]
  ultimately have loop: "SelectWithCursor_loop c (kind qb) it [] ?s1 =
     (if errors_Is_Done e then Some (Inr es, ?s2\<lparr>backend := w3, calls := calls ?s2 @ [Call_Next]\<rparr>)
      else Some (Inl ([], [], Some (FromClient e)),
             ?s2\<lparr>backend := w3, calls := calls ?s2 @ [Call_Next],
               logs := logs ?s2 @ [[S ''datastore'', S (kind qb), S ''select-error'', E e]]\<rparr>))"
    by simp
  let ?s3 = "?s2\<lparr>backend := w3, calls := calls ?s2 @ [Call_Next]\<rparr>"
  show ?thesis
  proof (cases "errors_Is_Done e")
    case True
    with loop have "SelectWithCursor_loop c (kind qb) it [] ?s1 = Some (Inr es, ?s3)" by simp
    then show ?thesis
      using assms(1) True
      by (auto simp: SelectWithCursor_def make_slice_def issue_def assms(2) Let_def
            replicate_append_same)
  next
    case False
    with loop show ?thesis
      using assms(1)
      by (simp add: SelectWithCursor_def make_slice_def issue_def assms(2) Let_def
            replicate_append_same)
  qed
qed

theorem SelectWithCursor_collects_witness:
  "SelectWithCursor mem_client (WithLimit 10 users) (session_of two_users) =
     Some (([''Alice'', ''Bob''], ''++'', None),
           \<lparr>backend = \<lparr>stored = two_users, position = 2\<rparr>,
            calls = [Call_Run (Limit 10 (NewQuery ''User'')), Call_Next, Call_Next, Call_Next,
                     Call_Cursor],
            logs = []\<rparr>) \<and>
   SelectWithCursor mem_client users (session_of damaged_users) =
     Some (([], [], Some (FromClient (Failure ''cannot load entity''))),
           \<lparr>backend = \<lparr>stored = damaged_users, position = 1\<rparr>,
            calls = [Call_Run (NewQuery ''User''), Call_Next, Call_Next],
            logs = [[S ''datastore'', S ''User'', S ''select-error'',
                     E (Failure ''cannot load entity'')]]\<rparr>)"
  using SelectWithCursor_collects [of "WithLimit 10 users" mem_client "session_of two_users" "()"
      "\<lparr>stored = two_users, position = 0\<rparr>" 2 "[''Alice'', ''Bob'']"
      "\<lparr>stored = two_users, position = 2\<rparr>" IteratorDone "\<lparr>stored = two_users, position = 2\<rparr>"]
    SelectWithCursor_collects [of users mem_client "session_of damaged_users" "()"
      "\<lparr>stored = damaged_users, position = 0\<rparr>" 1 "[''Alice'']"
      "\<lparr>stored = damaged_users, position = 1\<rparr>" "Failure ''cannot load entity''"
      "\<lparr>stored = damaged_users, position = 1\<rparr>"]
  by (simp add: mem_client_def users_def Query_def WithLimit_def session_of_def two_users_def
        damaged_users_def numeral_2_eq_2)

section \<open>Deleting in chunks\<close>

lemma length_chunks: "length (chunks n xs) = (length xs + n - 1) div n"
  by (simp add: chunks_def)

lemma ceiling_div_500: "(N + 500 - 1) div 500 = nat \<lceil>real N / 500\<rceil>"
  by linarith

lemma chunks_nth: "j < length (chunks n xs) \<Longrightarrow> chunks n xs ! j = take n (drop (j * n) xs)"
  by (simp add: chunks_def)

lemma chunk_index_iff: "0 < n \<Longrightarrow> j < (N + n - 1) div n \<longleftrightarrow> j * n < N" for n j N :: nat
proof -
  assume n: "0 < n"
  have "j < (N + n - 1) div n \<longleftrightarrow> Suc j \<le> (N + n - 1) div n" by auto
  also have "\<dots> \<longleftrightarrow> Suc j * n \<le> N + n - 1"
    using n by (simp only: less_eq_div_iff_mult_less_eq)
  also have "\<dots> \<longleftrightarrow> j * n < N" using n by (cases N) auto
  finally show ?thesis .
qed

lemma concat_chunks_take:
  "concat (map (\<lambda>j. take n (drop (j * n) xs)) [0 ..< m]) = take (m * n) xs"
proof (induction m)
  case 0
  then show ?case by simp
next
  case (Suc m)
  have "take (m * n) xs @ take n (drop (m * n) xs) = take (m * n + n) xs"
    by (simp add: take_add)
  with Suc show ?case by (simp add: add.commute)
qed

lemma index_in_chunks: "0 < n \<Longrightarrow> j < length (chunks n xs) \<longleftrightarrow> j * n < length xs"
  unfolding length_chunks by (rule chunk_index_iff)

lemma concat_chunks: "0 < n \<Longrightarrow> concat (chunks n xs) = xs"
proof -
  assume n: "0 < n"
  have "\<not> length (chunks n xs) * n < length xs"
    using index_in_chunks [OF n, of "length (chunks n xs)" xs] by simp
  then have "take (length (chunks n xs) * n) xs = xs" by simp
  moreover have "concat (chunks n xs) = take (length (chunks n xs) * n) xs"
    unfolding length_chunks by (simp add: chunks_def concat_chunks_take)
  ultimately show ?thesis by simp
qed

lemma chunks_bounds:
  assumes "0 < n" and "b \<in> set (chunks n xs)"
  shows "length b \<le> n \<and> b \<noteq> []"
proof -
  from assms(2) obtain j where j: "j < length (chunks n xs)" and b: "b = chunks n xs ! j"
    by (auto simp: in_set_conv_nth)
  from j have "j * n < length xs" by (simp add: index_in_chunks assms(1))
  then show ?thesis using assms(1) by (simp add: b chunks_nth j)
qed

lemma drop_chunks:
  assumes "0 < n"
  shows "drop j (chunks n xs) =
    (if j * n < length xs then take n (drop (j * n) xs) # drop (Suc j) (chunks n xs) else [])"
proof (cases "j * n < length xs")
  case True
  then have "j < length (chunks n xs)" by (simp add: index_in_chunks assms)
  then show ?thesis using True by (simp add: Cons_nth_drop_Suc [symmetric] chunks_nth)
next
  case False
  then have "\<not> j < length (chunks n xs)" by (simp add: index_in_chunks assms)
  then show ?thesis using False by simp
qed

lemma Delete_loop_stop: "\<not> i < length keys \<Longrightarrow> Delete_loop c cx k keys i s = (None, s)"
  by (subst Delete_loop.simps) simp

lemma Delete_loop_step:
  assumes "i < length keys"
    and "DeleteMulti c cx (take 500 (drop i keys)) (backend s) = (err, w')"
  shows "Delete_loop c cx k keys i s =
    (case err of
       Some e \<Rightarrow>
         (Some (FromClient e),
          Println [S ''datastore'', S k, S ''delete'', S ''delete-multi'', S ''error'', E e]
            (s\<lparr>backend := w', calls := calls s @ [Call_DeleteMulti (take 500 (drop i keys))]\<rparr>))
     | None \<Rightarrow>
         Delete_loop c cx k keys (i + 500)
           (s\<lparr>backend := w', calls := calls s @ [Call_DeleteMulti (take 500 (drop i keys))]\<rparr>))"
proof -
  have batch: "take ((if i + 500 > length keys then length keys else i + 500) - i) (drop i keys)
      = take 500 (drop i keys)"
    by simp
  show ?thesis
    by (subst Delete_loop.simps) (simp only: Let_def batch assms if_True issue_def fst_conv snd_conv)
qed

lemma Delete_loop_submit:
  "submit c cx (drop j (chunks 500 keys)) (backend s) = (m, r, w2) \<Longrightarrow>
   Delete_loop c cx k keys (j * 500) s =
     (map_option FromClient r,
      (case r of
         None \<Rightarrow> (\<lambda>s. s)
       | Some e \<Rightarrow> Println [S ''datastore'', S k, S ''delete'', S ''delete-multi'', S ''error'', E e])
        (s\<lparr>backend := w2,
           calls := calls s @ map Call_DeleteMulti (take m (drop j (chunks 500 keys)))\<rparr>))"
proof (induction "length (chunks 500 keys) - j" arbitrary: j s m)
  case 0
  from "0.hyps" have "\<not> j < length (chunks 500 keys)" by simp
  then have "\<not> j * 500 < length keys" by (simp add: index_in_chunks)
  with "0.prems" show ?case
    by (simp add: Delete_loop_stop drop_chunks)
next
  case (Suc d)
  from Suc.hyps(2) have "j < length (chunks 500 keys)" by simp
  then have lt: "j * 500 < length keys" by (simp add: index_in_chunks)
  let ?batch = "take 500 (drop (j * 500) keys)"
  have dr: "drop j (chunks 500 keys) = ?batch # drop (Suc j) (chunks 500 keys)"
    using lt by (simp add: drop_chunks)
  obtain err w' where dm: "DeleteMulti c cx ?batch (backend s) = (err, w')"
    by (cases "DeleteMulti c cx ?batch (backend s)")
  let ?s' = "s\<lparr>backend := w', calls := calls s @ [Call_DeleteMulti ?batch]\<rparr>"
  note step = Delete_loop_step [OF lt dm, of k]
  show ?case
  proof (cases err)
    case (Some e)
    with Suc.prems dr dm have "m = 1" "r = Some e" "w2 = w'" by simp_all
    then show ?thesis using Some by (simp add: step dr)
  next
    case None
    obtain m' where sub: "submit c cx (drop (Suc j) (chunks 500 keys)) (backend ?s') = (m', r, w2)"
      and m: "m = Suc m'"
      using Suc.prems dr dm None by (auto split: prod.splits)
    have "d = length (chunks 500 keys) - Suc j" using Suc.hyps(2) by simp
    from Suc.hyps(1) [OF this sub]
    have "Delete_loop c cx k keys (Suc j * 500) ?s' =
       (map_option FromClient r,
        (case r of None \<Rightarrow> (\<lambda>s. s)
         | Some e \<Rightarrow> Println [S ''datastore'', S k, S ''delete'', S ''delete-multi'', S ''error'', E e])
          (?s'\<lparr>backend := w2,
             calls := calls ?s' @ map Call_DeleteMulti (take m' (drop (Suc j) (chunks 500 keys)))\<rparr>))" .
    moreover have "Suc j * 500 = j * 500 + 500" by simp
    ultimately show ?thesis using None by (simp add: step m dr del: mult_Suc)
  qed
qed

lemma submit_shape:
  "submit c cx bs w = (k, r, w2) \<Longrightarrow>
     (r = None \<longrightarrow> k = length bs) \<and>
     (\<forall>e. r = Some e \<longrightarrow> 0 < k \<and> k \<le> length bs \<and>
        (\<exists>w'. submit c cx (take (k - 1) bs) w = (k - 1, None, w') \<and>
              DeleteMulti c cx (bs ! (k - 1)) w' = (Some e, w2)))"
proof (induction bs arbitrary: w k)
  case Nil
  then show ?case by simp
next
  case (Cons b bs)
  show ?case
  proof (cases "DeleteMulti c cx b w")
    case (Pair err w')
    show ?thesis
    proof (cases err)
      case (Some e)
      with Cons.prems Pair show ?thesis by auto
    next
      case None
      with Cons.prems Pair obtain k' where
        sub: "submit c cx bs w' = (k', r, w2)" and k: "k = Suc k'"
        by (auto split: prod.splits)
      from Cons.IH [OF sub] show ?thesis
        using Pair None k by (auto simp: take_Cons' nth_Cons' split: prod.splits)
    qed
  qed
qed

text \<open>
  C2. Let the keys-only query yield \<open>keys\<close> (\<open>N\<close> of them), and let the backend,
  handed the chunks of at most 500 keys one after the other, answer \<open>k\<close> calls, the last
  with \<open>r\<close>. \<^verbatim>\<open>Delete\<close> issues, after the query, exactly those \<open>k\<close> \<^verbatim>\<open>DeleteMulti\<close> calls,
  on the first \<open>k\<close> chunks in order, and returns \<open>r\<close>. The chunks are the \<open>\<lceil>N / 500\<rceil>\<close>
  consecutive pieces of \<open>keys\<close>, none empty or longer than 500. If no call fails, all
  \<open>\<lceil>N / 500\<rceil>\<close> are made. If one fails, it is call \<open>k\<close>: the \<open>k - 1\<close> chunks before it
  were deleted, its error is returned, no later chunk is submitted, and the backend is
  left in the state of that failed call (nothing is rolled back).
\<close>

theorem Delete_in_chunks:
  assumes "GetAll c (ctx qb) (KeysOnly_q (query qb)) (backend s) = ((keys, ents, None), w1)"
    and "submit c (ctx qb) (chunks 500 keys) w1 = (k, r, w2)"
  shows "fst (Delete c qb s) = map_option FromClient r \<and>
         backend (snd (Delete c qb s)) = w2 \<and>
         calls (snd (Delete c qb s)) =
           calls s @ Call_GetAll (KeysOnly_q (query qb)) #
             map Call_DeleteMulti (take k (chunks 500 keys)) \<and>
         length (chunks 500 keys) = nat \<lceil>real (length keys) / 500\<rceil> \<and>
         (\<forall>b \<in> set (chunks 500 keys). length b \<le> 500 \<and> b \<noteq> []) \<and>
         concat (chunks 500 keys) = keys \<and>
         (r = None \<longrightarrow> k = nat \<lceil>real (length keys) / 500\<rceil>) \<and>
         (\<forall>e. r = Some e \<longrightarrow>
            0 < k \<and> k \<le> nat \<lceil>real (length keys) / 500\<rceil> \<and>
            (\<exists>w'. submit c (ctx qb) (take (k - 1) (chunks 500 keys)) w1 = (k - 1, None, w') \<and>
                  DeleteMulti c (ctx qb) (chunks 500 keys ! (k - 1)) w' = (Some e, w2)))"
proof -
  let ?q = "KeysOnly_q (query qb)"
  let ?s1 = "s\<lparr>backend := w1, calls := calls s @ [Call_GetAll ?q]\<rparr>"
  have len: "length (chunks 500 keys) = nat \<lceil>real (length keys) / 500\<rceil>"
    unfolding length_chunks by (rule ceiling_div_500)
  have sub: "submit c (ctx qb) (drop 0 (chunks 500 keys)) (backend ?s1) = (k, r, w2)"
    using assms(2) by simp
  have loop: "Delete_loop c (ctx qb) (kind qb) keys 0 ?s1 =
     (map_option FromClient r,
      (case r of
         None \<Rightarrow> (\<lambda>s. s)
       | Some e \<Rightarrow> Println [S ''datastore'', S (kind qb), S ''delete'', S ''delete-multi'',
                            S ''error'', E e])
        (?s1\<lparr>backend := w2,
           calls := calls ?s1 @ map Call_DeleteMulti (take k (drop 0 (chunks 500 keys)))\<rparr>))"
    using Delete_loop_submit [OF sub, of "kind qb"] by simp
  have del: "Delete c qb s = (if length keys > 0 then Delete_loop c (ctx qb) (kind qb) keys 0 ?s1
       else (None, ?s1))"
    by (simp add: Delete_def issue_def Let_def assms(1))
  have run: "fst (Delete c qb s) = map_option FromClient r \<and>
         backend (snd (Delete c qb s)) = w2 \<and>
         calls (snd (Delete c qb s)) =
           calls s @ Call_GetAll ?q # map Call_DeleteMulti (take k (chunks 500 keys))"
  proof (cases "length keys > 0")
    case True
    then show ?thesis
      by (cases r) (simp_all add: del loop Println_def)
  next
    case False
    then have "chunks 500 keys = []" by (simp add: chunks_def)
    with assms(2) have "k = 0" "r = None" "w2 = w1" by simp_all
    with False show ?thesis by (simp add: del)
  qed
  note shape = submit_shape [OF assms(2)]
  have bounds: "\<forall>b \<in> set (chunks 500 keys). length b \<le> 500 \<and> b \<noteq> []"
    using chunks_bounds [of 500 _ keys] by simp
  have whole: "concat (chunks 500 keys) = keys"
    by (simp add: concat_chunks)
  have all: "r = None \<longrightarrow> k = nat \<lceil>real (length keys) / 500\<rceil>"
    using shape by (simp only: len [symmetric]) simp
  have failed: "\<forall>e. r = Some e \<longrightarrow>
            0 < k \<and> k \<le> nat \<lceil>real (length keys) / 500\<rceil> \<and>
            (\<exists>w'. submit c (ctx qb) (take (k - 1) (chunks 500 keys)) w1 = (k - 1, None, w') \<and>
                  DeleteMulti c (ctx qb) (chunks 500 keys ! (k - 1)) w' = (Some e, w2))"
    using shape by (simp only: len [symmetric]) simp
  from run len bounds whole all failed show ?thesis by blast
qed

lemma upt_0_3: "[0 ..< 3] = [0, 1, 2 :: nat]"
  by code_simp

lemma chunks_many:
  "chunks 500 (map fst many_users) =
     [replicate 500 (user ''a''), user ''locked'' # replicate 499 (user ''b''), [user ''b'']]"
  by (simp add: chunks_def many_users_def upt_0_3)

lemma submit_many:
  "submit mem_client ()
     [replicate 500 (user ''a''), user ''locked'' # replicate 499 (user ''b''), [user ''b'']]
     \<lparr>stored = many_users, position = 0\<rparr> =
   (2, Some (Failure ''locked''),
    \<lparr>stored = (user ''locked'', ''x'') # replicate 500 (user ''b'', ''x''), position = 0\<rparr>)"
  by (simp add: mem_client_def many_users_def user_def NameKey_def list_ex_iff)

theorem Delete_in_chunks_witness:
  "fst (Delete mem_client users (session_of many_users)) = Some (FromClient (Failure ''locked'')) \<and>
   calls (snd (Delete mem_client users (session_of many_users))) =
     [Call_GetAll (KeysOnly_q (NewQuery ''User'')),
      Call_DeleteMulti (replicate 500 (user ''a'')),
      Call_DeleteMulti (user ''locked'' # replicate 499 (user ''b''))] \<and>
   backend (snd (Delete mem_client users (session_of many_users))) =
     \<lparr>stored = (user ''locked'', ''x'') # replicate 500 (user ''b'', ''x''), position = 0\<rparr> \<and>
   nat \<lceil>real (length (map fst many_users)) / 500\<rceil> = 3"
  using Delete_in_chunks [of mem_client users "session_of many_users" "map fst many_users"
      "map snd many_users" "\<lparr>stored = many_users, position = 0\<rparr>" 2 "Some (Failure ''locked'')"
      "\<lparr>stored = (user ''locked'', ''x'') # replicate 500 (user ''b'', ''x''), position = 0\<rparr>"]
    submit_many chunks_many
  by (simp add: mem_client_def users_def Query_def session_of_def)

section \<open>GetMulti\<close>

text \<open>
  C9. For a non-empty sequence of ids whose one fetch the backend does not fail,
  \<^verbatim>\<open>GetMulti\<close> returns no error and as many entities as ids; the entity at each position
  is the one stored under the id at that position, or the zero value where there is
  none.
\<close>

theorem GetMulti_parity:
  assumes "ids \<noteq> []" and "fails cx (map (\<lambda>id. NameKey kind' id None) ids) (backend s) = None"
  shows "snd (fst (GetMulti lookup fails zero cx kind' ids s)) = None \<and>
         length (fst (fst (GetMulti lookup fails zero cx kind' ids s))) = length ids \<and>
         (\<forall>i < length ids.
            fst (fst (GetMulti lookup fails zero cx kind' ids s)) ! i =
              (case lookup (NameKey kind' (ids ! i) None) (backend s) of
                 Some e \<Rightarrow> e | None \<Rightarrow> zero))"
  using assms by (simp add: GetMulti_def Let_def issue_def)

theorem GetMulti_parity_witness:
  "fst (GetMulti (\<lambda>k w. map_of two_users k) (\<lambda>cx ks w. None) [] () ''User'' [''a'', ''b'', ''c'']
          (session_of two_users)) = ([''Alice'', ''Bob'', []], None)"
  using GetMulti_parity [of "[''a'', ''b'', ''c'']" "\<lambda>cx ks w. None" "()" "''User''"
      "session_of two_users" "\<lambda>k w. map_of two_users k" "[]"]
  by (simp add: GetMulti_def issue_def Let_def two_users_def user_def NameKey_def)

end
